theory Spec2Isabelle
  imports Complex_Main "HOL-Library.Log_Nat"
begin

section \<open>Data model of \<open>src/app/page.tsx\<close>\<close>

text \<open>
  The TypeScript types \<open>Pt\<close>, \<open>Size\<close> and \<open>Rect\<close> are structs of \<open>number\<close>s. A
  \<open>number\<close> is modelled as the real it denotes. Where the code rounds a result to whole
  pixels, in \<open>fit\<close>, every product and quotient is rounded to a double as the code's is
  (see \<open>double\<close> below); the other arithmetic of the page is written exactly: it is on
  whole numbers and their halves, which doubles hold exactly, except for the products of
  \<open>scaleRect\<close> and for pointer coordinates with a fraction, where a double differs
  from the exact result in its last bit at most. \<open>NaN\<close> and the infinities are outside
  the model. The field names of the source (\<open>x\<close>, \<open>y\<close>, \<open>w\<close>, \<open>h\<close>, \<open>x1\<close>, ...) carry a
  prefix here, because a record field is a constant and would capture the variables of
  every later statement.
\<close>

record Pt =
  pt_x :: real
  pt_y :: real

record Size =
  size_w :: real
  size_h :: real

record Rect =
  rect_x :: real
  rect_y :: real
  rect_w :: real
  rect_h :: real

text \<open>The type of \<open>HOTSPOT_LEFT_INTRINSIC\<close> and \<open>HOTSPOT_RIGHT_INTRINSIC\<close>.\<close>

record IntrinsicHotspot =
  hs_x1 :: real
  hs_y1 :: real
  hs_x2 :: real
  hs_y2 :: real

definition HOTSPOT_LEFT_INTRINSIC :: IntrinsicHotspot where
  "HOTSPOT_LEFT_INTRINSIC = \<lparr>hs_x1 = 160, hs_y1 = 453, hs_x2 = 696, hs_y2 = 542\<rparr>"

definition HOTSPOT_RIGHT_INTRINSIC :: IntrinsicHotspot where
  "HOTSPOT_RIGHT_INTRINSIC = \<lparr>hs_x1 = 2069, hs_y1 = 9497, hs_x2 = 13575, hs_y2 = 10520\<rparr>"

section \<open>Layout engine\<close>

text \<open>
  IEEE 754 doubles. \<open>binade x\<close> is the exponent of the power of two at or below
  \<open>\<bar>x\<bar>\<close>, that is \<open>\<lfloor>log\<^sub>2 \<bar>x\<bar>\<rfloor>\<close>; \<open>round_even\<close> rounds to the nearest whole number, a
  tie going to the even one; \<open>double x\<close> is the double nearest to \<open>x\<close>: \<open>x\<close> is scaled to
  a significand of 53 bits, rounded, and scaled back. The exponent is not bounded, so
  that overflow and subnormal numbers are outside the model; the sizes of images and
  viewports keep every magnitude of the layout far inside the range of doubles. An
  arithmetic operation of the source is its exact result under \<open>double\<close>, and a decimal
  literal \<open>0.45\<close> is \<open>double 0.45\<close>.
\<close>

definition binade :: "real \<Rightarrow> int" where
  "binade x =
     (if 1 \<le> \<bar>x\<bar> then bitlen \<lfloor>\<bar>x\<bar>\<rfloor> - 1 else - bitlen (\<lceil>1 / \<bar>x\<bar>\<rceil> - 1))"

definition round_even :: "real \<Rightarrow> int" where
  "round_even y =
     (let f = \<lfloor>y\<rfloor>; d = y - of_int f
      in if d < 1 / 2 then f else if 1 / 2 < d then f + 1 else if even f then f else f + 1)"

definition double :: "real \<Rightarrow> real" where
  "double x =
     (if x = 0 then 0
      else of_int (round_even (x * 2 powi (52 - binade x))) * 2 powi (binade x - 52))"

text \<open>
  \<open>Math.round\<close> rounds to the nearest integer, a tie going up:
  \<open>Math.round(2.5) = 3\<close>, \<open>Math.round(-2.5) = -2\<close>. The result is exact.
\<close>

definition Math_round :: "real \<Rightarrow> real" where
  "Math_round v = of_int \<lfloor>v + 1 / 2\<rfloor>"

text \<open>
  A promise, by its final outcome. \<open>Pending\<close> is the promise that never settles (an
  image for which neither \<open>load\<close> nor \<open>error\<close> fires). The reason of a rejection is
  never read by the source and is left out.
\<close>

datatype 'a promise = Fulfilled 'a | Rejected | Pending

text \<open>
  What the browser does with the probe image of \<open>loadMeta\<close>: it fires \<open>load\<close>, and
  \<open>naturalWidth\<close> and \<open>naturalHeight\<close> (unsigned integers) are then readable, or it fires
  \<open>error\<close>, or neither.
\<close>

datatype probe = Loaded nat nat | Failed | Stalled

text \<open>\<open>a || b\<close> on a number \<open>a\<close> that is an unsigned integer: \<open>b\<close> exactly when \<open>a\<close> is 0.\<close>

definition or_default :: "nat \<Rightarrow> real \<Rightarrow> real" where
  "or_default a b = (if a = 0 then b else real a)"

definition loadMeta :: "probe \<Rightarrow> Size promise" where
  "loadMeta p =
     (case p of
        Loaded naturalWidth naturalHeight \<Rightarrow>
          Fulfilled \<lparr>size_w = or_default naturalWidth 360, size_h = or_default naturalHeight 240\<rparr>
      | Failed \<Rightarrow> Rejected
      | Stalled \<Rightarrow> Pending)"

text \<open>\<open>Promise.all\<close> of two promises rejects as soon as one of them rejects.\<close>

definition Promise_all :: "'a promise \<Rightarrow> 'b promise \<Rightarrow> ('a \<times> 'b) promise" where
  "Promise_all p q =
     (case (p, q) of
        (Rejected, _) \<Rightarrow> Rejected
      | (_, Rejected) \<Rightarrow> Rejected
      | (Fulfilled a, Fulfilled b) \<Rightarrow> Fulfilled (a, b)
      | _ \<Rightarrow> Pending)"

definition margin :: real where
  "margin = 24"

definition gap :: real where
  "gap = 24"

text \<open>The inset viewport, from \<open>window.innerWidth\<close> and \<open>window.innerHeight\<close>.\<close>

definition inset :: "real \<Rightarrow> real" where
  "inset inner = max (inner - margin * 2) 300"

record Fit =
  fit_size :: Size
  fit_scale :: real

text \<open>
  The closure \<open>fit\<close>, with the \<open>vw\<close> and \<open>vh\<close> it captures as parameters, and its
  locals \<open>maxW\<close> and \<open>maxH\<close> as functions of them. Each product and quotient is the
  double the code computes; \<open>Math.min\<close> and \<open>Math.round\<close> are exact. \<open>fit\<close> is called
  on the results of \<open>loadMeta\<close> only, whose sides are positive, so that the divisions
  never have a zero divisor.
\<close>

definition maxW :: "real \<Rightarrow> real" where
  "maxW vw = min (double (vw * double 0.45)) vw"

definition maxH :: "real \<Rightarrow> real" where
  "maxH vh = min (double (vh * double 0.7)) vh"

definition fit :: "real \<Rightarrow> real \<Rightarrow> Size \<Rightarrow> Fit" where
  "fit vw vh sz =
     (let s = min (double (maxW vw / size_w sz)) (min (double (maxH vh / size_h sz)) 1)
      in \<lparr>fit_size = \<lparr>size_w = Math_round (double (size_w sz * s)),
                       size_h = Math_round (double (size_h sz * s))\<rparr>,
          fit_scale = s\<rparr>)"

definition scaleRect :: "IntrinsicHotspot \<Rightarrow> real \<Rightarrow> Rect" where
  "scaleRect r s =
     \<lparr>rect_x = hs_x1 r * s,
      rect_y = hs_y1 r * s,
      rect_w = (hs_x2 r - hs_x1 r) * s,
      rect_h = (hs_y2 r - hs_y1 r) * s\<rparr>"

text \<open>The component state of \<open>TwoImageCardsAutoSizeWithHotspot\<close> that the layout sets.\<close>

record page =
  ready :: bool
  sizes :: "(Size \<times> Size) option"
  centers :: "(Pt \<times> Pt) option"
  hotspots :: "(Rect \<times> Rect) option"

definition initial_page :: page where
  "initial_page = \<lparr>ready = False, sizes = None, centers = None, hotspots = None\<rparr>"

text \<open>The body of the async function after the \<open>await\<close>, on the two probed sizes.\<close>

definition layout_body :: "real \<Rightarrow> real \<Rightarrow> Size \<Rightarrow> Size \<Rightarrow> page \<Rightarrow> page" where
  "layout_body innerWidth innerHeight metaLeft metaRight pg =
     (let vw = inset innerWidth;
          vh = inset innerHeight;
          fl = fit vw vh metaLeft;
          fr = fit vw vh metaRight;
          leftSize = fit_size fl;
          rightSize = fit_size fr;
          leftHotspot = scaleRect HOTSPOT_LEFT_INTRINSIC (fit_scale fl);
          rightHotspot = scaleRect HOTSPOT_RIGHT_INTRINSIC (fit_scale fr);
          totalW = size_w leftSize + gap + size_w rightSize;
          y = max margin ((innerHeight - max (size_h leftSize) (size_h rightSize)) / 2);
          startX = max margin ((innerWidth - totalW) / 2)
      in pg\<lparr>sizes := Some (leftSize, rightSize),
            hotspots := Some (leftHotspot, rightHotspot),
            centers := Some (\<lparr>pt_x = startX, pt_y = y\<rparr>,
                             \<lparr>pt_x = startX + size_w leftSize + gap, pt_y = y\<rparr>),
            ready := True\<rparr>)"

text \<open>The async function itself: it settles with the page it has set, or rejects.\<close>

definition layout_task :: "real \<Rightarrow> real \<Rightarrow> probe \<Rightarrow> probe \<Rightarrow> page \<Rightarrow> page promise" where
  "layout_task innerWidth innerHeight image2 image1 pg =
     (case Promise_all (loadMeta image2) (loadMeta image1) of
        Fulfilled (metaLeft, metaRight) \<Rightarrow>
          Fulfilled (layout_body innerWidth innerHeight metaLeft metaRight pg)
      | Rejected \<Rightarrow> Rejected
      | Pending \<Rightarrow> Pending)"

text \<open>The handler given to \<open>.catch\<close>.\<close>

definition catch_fallback :: "page \<Rightarrow> page" where
  "catch_fallback pg =
     (let fallback = \<lparr>size_w = 360, size_h = 240\<rparr>
      in pg\<lparr>sizes := Some (fallback, fallback),
            hotspots := Some (\<lparr>rect_x = 10, rect_y = 180, rect_w = 340, rect_h = 40\<rparr>,
                              \<lparr>rect_x = 10, rect_y = 180, rect_w = 340, rect_h = 40\<rparr>),
            centers := Some (\<lparr>pt_x = 40, pt_y = 80\<rparr>,
                             \<lparr>pt_x = 40 + size_w fallback + 24, pt_y = 80\<rparr>),
            ready := True\<rparr>)"

text \<open>The second layout effect as a whole: the page once the promise chain has run.\<close>

definition layout_effect :: "real \<Rightarrow> real \<Rightarrow> probe \<Rightarrow> probe \<Rightarrow> page \<Rightarrow> page" where
  "layout_effect innerWidth innerHeight image2 image1 pg =
     (case layout_task innerWidth innerHeight image2 image1 pg of
        Fulfilled pg' \<Rightarrow> pg'
      | Rejected \<Rightarrow> catch_fallback pg
      | Pending \<Rightarrow> pg)"

text \<open>
  What the component returns: the empty \<open>main\<close> while the layout is not set, the two
  \<open>MovableCard\<close>s with their props after. Both cards are given a hotspot and a link.
\<close>

record card_props =
  cp_id :: string
  cp_initial :: Pt
  cp_size :: Size
  cp_imageUrl :: string
  cp_hotspot :: "Rect option"
  cp_linkHref :: "string option"

datatype view = Blank | Cards card_props card_props

definition render :: "page \<Rightarrow> view" where
  "render pg =
     (if ready pg then
        (case (sizes pg, centers pg, hotspots pg) of
           (Some sz, Some c, Some hs) \<Rightarrow>
             Cards
               \<lparr>cp_id = ''Left'', cp_initial = fst c, cp_size = fst sz,
                cp_imageUrl = ''/image2.png'', cp_hotspot = Some (fst hs),
                cp_linkHref = Some ''https://bokcenter.harvard.edu/people/madeleine-woods''\<rparr>
               \<lparr>cp_id = ''Right'', cp_initial = snd c, cp_size = snd sz,
                cp_imageUrl = ''/image.png'', cp_hotspot = Some (snd hs),
                cp_linkHref = Some ''https://www.linkedin.com/in/elisadiopweyer/''\<rparr>
         | _ \<Rightarrow> Blank)
      else Blank)"

section \<open>Drag controller: \<open>MovableCard\<close>\<close>

text \<open>
  The card's \<open>div\<close>, as far as the component writes it: \<open>style.width\<close>,
  \<open>style.height\<close> and the translation of \<open>style.transform\<close>.
\<close>

record element =
  el_width :: real
  el_height :: real
  el_transform :: Pt

text \<open>
  The \<open>div\<close> is absolutely positioned at \<open>left: 0, top: 0\<close> of the page's \<open>main\<close>,
  which is taken to sit at the viewport's origin: the \<open>left\<close> and \<open>top\<close> of its
  bounding rectangle are the translation last written to its transform.
\<close>

definition getBoundingClientRect :: "element \<Rightarrow> Rect" where
  "getBoundingClientRect e =
     \<lparr>rect_x = pt_x (el_transform e), rect_y = pt_y (el_transform e),
      rect_w = el_width e, rect_h = el_height e\<rparr>"

text \<open>
  One card: its refs (\<open>ref\<close>, \<open>pos\<close>, \<open>dragging\<close>, \<open>dragOffset\<close>, \<open>rafId\<close>), and
  what it has registered with the browser: the animation-frame callbacks waiting for the
  next frame (by handle), the next handle \<open>requestAnimationFrame\<close> gives out, the two
  listeners on \<open>window\<close>, and whether the hotspot anchor is rendered.
\<close>

record card =
  el :: "element option"
  pos :: Pt
  dragging :: bool
  dragOffset :: Pt
  rafId :: "nat option"
  frames :: "nat list"
  next_handle :: nat
  move_listener :: bool
  up_listener :: bool
  anchor :: bool

text \<open>\<open>hotspot && linkHref\<close>: an object is truthy, a string is unless it is empty.\<close>

definition shows_anchor :: "card_props \<Rightarrow> bool" where
  "shows_anchor p =
     (case (cp_hotspot p, cp_linkHref p) of
        (Some _, Some href) \<Rightarrow> href \<noteq> []
      | _ \<Rightarrow> False)"

text \<open>Mounting: the refs at their initial values, then the layout effect on the \<open>div\<close>.\<close>

definition mount :: "card_props \<Rightarrow> card" where
  "mount p =
     \<lparr>el = Some \<lparr>el_width = size_w (cp_size p), el_height = size_h (cp_size p),
                  el_transform = cp_initial p\<rparr>,
      pos = cp_initial p,
      dragging = False,
      dragOffset = \<lparr>pt_x = 0, pt_y = 0\<rparr>,
      rafId = None,
      frames = [],
      next_handle = 1,
      move_listener = False,
      up_listener = False,
      anchor = shows_anchor p\<rparr>"

text \<open>The callback given to \<open>requestAnimationFrame\<close>.\<close>

definition raf_callback :: "card \<Rightarrow> card" where
  "raf_callback st =
     (let st1 = st\<lparr>rafId := None\<rparr>
      in case el st1 of
           None \<Rightarrow> st1
         | Some e \<Rightarrow> st1\<lparr>el := Some (e\<lparr>el_transform := pos st1\<rparr>)\<rparr>)"

definition scheduleRender :: "card \<Rightarrow> card" where
  "scheduleRender st =
     (if rafId st \<noteq> None then st
      else st\<lparr>rafId := Some (next_handle st),
              frames := frames st @ [next_handle st],
              next_handle := next_handle st + 1\<rparr>)"

record pointer_event =
  clientX :: real
  clientY :: real

definition onPointerMove :: "pointer_event \<Rightarrow> card \<Rightarrow> card" where
  "onPointerMove e st =
     (if \<not> dragging st then st
      else scheduleRender
             (st\<lparr>pos := \<lparr>pt_x = clientX e - pt_x (dragOffset st),
                         pt_y = clientY e - pt_y (dragOffset st)\<rparr>\<rparr>))"

definition stopDragging :: "card \<Rightarrow> card" where
  "stopDragging st = st\<lparr>dragging := False, move_listener := False, up_listener := False\<rparr>"

text \<open>
  \<open>preventDefault\<close> and the optional \<open>setPointerCapture\<close> change nothing the component
  reads. \<open>rect?.left ?? 0\<close> is 0 when the ref holds no element.
\<close>

definition onPointerDown :: "pointer_event \<Rightarrow> card \<Rightarrow> card" where
  "onPointerDown e st =
     (let rect = map_option getBoundingClientRect (el st)
      in st\<lparr>dragOffset :=
              \<lparr>pt_x = clientX e - (case rect of Some r \<Rightarrow> rect_x r | None \<Rightarrow> 0),
               pt_y = clientY e - (case rect of Some r \<Rightarrow> rect_y r | None \<Rightarrow> 0)\<rparr>,
            dragging := True,
            move_listener := True,
            up_listener := True\<rparr>)"

text \<open>
  The events a card sees. A pointer-down lands on the hotspot anchor (or on the badge
  inside it) or on the card's own surface; the anchor's handler stops the propagation,
  so that the card's \<open>onPointerDown\<close> does not run. Moves and releases reach the card
  through its listeners on \<open>window\<close> only. \<open>Frame\<close> is the browser running the
  animation-frame callbacks that wait.
\<close>

datatype target = OnAnchor | OnCard

datatype event =
  PointerDown target pointer_event
| PointerMove pointer_event
| PointerUp
| Frame

definition tick :: "card \<Rightarrow> card" where
  "tick st = (fold (\<lambda>_. raf_callback) (frames st) st)\<lparr>frames := []\<rparr>"

fun step :: "event \<Rightarrow> card \<Rightarrow> card" where
  "step (PointerDown tg e) st = (if tg = OnAnchor \<and> anchor st then st else onPointerDown e st)"
| "step (PointerMove e) st = (if move_listener st then onPointerMove e st else st)"
| "step PointerUp st = (if up_listener st then stopDragging st else st)"
| "step Frame st = tick st"

definition run :: "event list \<Rightarrow> card \<Rightarrow> card" where
  "run evs st = fold step evs st"

text \<open>
  A drag session: the pointer goes down on the card's surface at \<open>p\<close>, moves through
  the points \<open>ms\<close>, and is released.
\<close>

definition drag_session :: "pointer_event \<Rightarrow> pointer_event list \<Rightarrow> event list" where
  "drag_session p ms = PointerDown OnCard p # map PointerMove ms @ [PointerUp]"


text \<open>
  The state of the repaint scheduling: with no handle in \<open>rafId\<close> no callback waits and
  the \<open>div\<close> shows the stored position; with a handle in it, exactly the callback of
  that handle waits.
\<close>

definition coalesced :: "card \<Rightarrow> bool" where
  "coalesced st =
     (case rafId st of
        None \<Rightarrow> frames st = [] \<and> map_option el_transform (el st) = Some (pos st)
      | Some h \<Rightarrow> frames st = [h] \<and> el st \<noteq> None)"

text \<open>Values for the scenarios: a point, a pointer position, and a card at \<open>(100, 60)\<close>.\<close>

abbreviation pt :: "real \<Rightarrow> real \<Rightarrow> Pt" where
  "pt a b \<equiv> \<lparr>pt_x = a, pt_y = b\<rparr>"

abbreviation pointer_at :: "real \<Rightarrow> real \<Rightarrow> pointer_event" where
  "pointer_at a b \<equiv> \<lparr>clientX = a, clientY = b\<rparr>"

definition props_at_100_60 :: card_props where
  "props_at_100_60 =
     \<lparr>cp_id = ''Left'', cp_initial = pt 100 60, cp_size = \<lparr>size_w = 360, size_h = 240\<rparr>,
      cp_imageUrl = ''/image2.png'',
      cp_hotspot = Some \<lparr>rect_x = 10, rect_y = 180, rect_w = 340, rect_h = 40\<rparr>,
      cp_linkHref = Some ''https://bokcenter.harvard.edu/people/madeleine-woods''\<rparr>"

definition card_at_100_60 :: card where
  "card_at_100_60 = mount props_at_100_60"


section \<open>Properties of the layout engine\<close>

subsection \<open>Rounding to doubles\<close>

lemma binade_bounds:
  assumes "x \<noteq> 0"
  shows "2 powi binade x \<le> \<bar>x\<bar> \<and> \<bar>x\<bar> < 2 powi (binade x + 1)"
proof (cases "1 \<le> \<bar>x\<bar>")
  case True
  define n where "n = \<lfloor>\<bar>x\<bar>\<rfloor>"
  have n: "0 < n" using True by (simp add: n_def)
  have b: "1 \<le> bitlen n" using n by (simp add: bitlen_alt_def)
  from bitlen_bounds [OF n] have lo: "2 ^ nat (bitlen n - 1) \<le> n" and hi: "n < 2 ^ nat (bitlen n)"
    by simp_all
  have "real_of_int (2 ^ nat (bitlen n - 1)) \<le> real_of_int n" using lo by linarith
  also have "\<dots> \<le> \<bar>x\<bar>" by (simp add: n_def)
  finally have 1: "2 powi (bitlen n - 1) \<le> \<bar>x\<bar>"
    using b by (simp add: power_int_def)
  have "n + 1 \<le> 2 ^ nat (bitlen n)" using hi by simp
  then have "real_of_int (n + 1) \<le> real_of_int (2 ^ nat (bitlen n))" by linarith
  moreover have "\<bar>x\<bar> < real_of_int (n + 1)" unfolding n_def by linarith
  ultimately have 2: "\<bar>x\<bar> < 2 powi (bitlen n)"
    using b by (simp add: power_int_def)
  show ?thesis using True 1 2 by (simp add: binade_def n_def)
next
  case False
  define y where "y = 1 / \<bar>x\<bar>"
  define n where "n = \<lceil>y\<rceil> - 1"
  have xp: "0 < \<bar>x\<bar>" using assms by simp
  have y1: "1 < y" using False xp by (simp add: y_def)
  have n: "0 < n" using y1 unfolding n_def by linarith
  have b: "1 \<le> bitlen n" using n by (simp add: bitlen_alt_def)
  from bitlen_bounds [OF n] have lo: "2 ^ nat (bitlen n - 1) \<le> n" and hi: "n < 2 ^ nat (bitlen n)"
    by simp_all
  have "y \<le> real_of_int (n + 1)" unfolding n_def by simp
  also have "real_of_int (n + 1) \<le> real_of_int (2 ^ nat (bitlen n))" using hi by linarith
  finally have yhi: "y \<le> 2 ^ nat (bitlen n)" by simp
  have "real_of_int (2 ^ nat (bitlen n - 1)) \<le> real_of_int n" using lo by linarith
  also have "real_of_int n < y" unfolding n_def by linarith
  finally have ylo: "2 ^ nat (bitlen n - 1) < y" by simp
  have x: "\<bar>x\<bar> = 1 / y" using xp by (simp add: y_def)
  have 1: "2 powi (- bitlen n) \<le> \<bar>x\<bar>"
  proof -
    have "1 / 2 ^ nat (bitlen n) \<le> 1 / y"
      using yhi y1 by (intro divide_left_mono) simp_all
    then show ?thesis using b by (simp add: x power_int_def power_one_over)
  qed
  have 2: "\<bar>x\<bar> < 2 powi (- bitlen n + 1)"
  proof -
    have "1 / y < 1 / 2 ^ nat (bitlen n - 1)"
      using ylo y1 by (intro divide_strict_left_mono) simp_all
    moreover have "2 powi (- bitlen n + 1) = 1 / (2::real) ^ nat (bitlen n - 1)"
      using b by (simp add: power_int_def power_one_over nat_diff_distrib)
    ultimately show ?thesis by (simp add: x)
  qed
  show ?thesis using False 1 2 by (simp add: binade_def n_def y_def)
qed

lemma binade_unique:
  assumes "2 powi k \<le> \<bar>x\<bar>" and "\<bar>x\<bar> < 2 powi (k + 1)"
  shows "binade x = k"
proof -
  have "0 < (2::real) powi k" by simp
  then have "0 < \<bar>x\<bar>" using assms(1) by linarith
  then have nz: "x \<noteq> 0" by simp
  note b = binade_bounds [OF nz]
  have lt: "2 powi binade x < (2::real) powi (k + 1)" "2 powi k < (2::real) powi (binade x + 1)"
    using b assms by linarith+
  have 1: "binade x < k + 1"
  proof (rule ccontr)
    assume "\<not> binade x < k + 1"
    then have "(2::real) powi (k + 1) \<le> 2 powi binade x"
      by (intro power_int_increasing) simp_all
    then show False using lt(1) by linarith
  qed
  have 2: "k < binade x + 1"
  proof (rule ccontr)
    assume "\<not> k < binade x + 1"
    then have "(2::real) powi (binade x + 1) \<le> 2 powi k"
      by (intro power_int_increasing) simp_all
    then show False using lt(2) by linarith
  qed
  show ?thesis using 1 2 by simp
qed

lemma round_even_near: "\<bar>real_of_int (round_even y) - y\<bar> \<le> 1 / 2"
  unfolding round_even_def Let_def by (auto; linarith)

lemma round_even_le: "y \<le> real_of_int n \<Longrightarrow> round_even y \<le> n"
  unfolding round_even_def Let_def by (auto; linarith)

lemma round_even_ge: "real_of_int n \<le> y \<Longrightarrow> n \<le> round_even y"
  unfolding round_even_def Let_def by (auto; linarith)

lemma significand_bounds:
  assumes "0 < x"
  shows "2 ^ 52 \<le> x * 2 powi (52 - binade x) \<and> x * 2 powi (52 - binade x) < 2 ^ 53"
proof -
  have b: "2 powi binade x \<le> x \<and> x < 2 powi (binade x + 1)"
    using binade_bounds [of x] assms by simp
  have p: "0 < (2::real) powi (52 - binade x)" by simp
  have "2 powi binade x * 2 powi (52 - binade x) \<le> x * 2 powi (52 - binade x)"
    using b p by (simp add: mult_right_mono)
  moreover have "2 powi binade x * 2 powi (52 - binade x) = (2::real) powi 52"
    by (simp add: power_int_add [symmetric])
  moreover have "x * 2 powi (52 - binade x) < 2 powi (binade x + 1) * 2 powi (52 - binade x)"
    using b p by (simp add: mult_strict_right_mono)
  moreover have "2 powi (binade x + 1) * 2 powi (52 - binade x) = (2::real) powi 53"
    by (simp add: power_int_add [symmetric])
  ultimately show ?thesis by simp
qed

text \<open>Rounding keeps a positive number positive.\<close>

lemma double_pos:
  assumes "0 < x"
  shows "0 < double x"
proof -
  have "real_of_int (2 ^ 52) \<le> x * 2 powi (52 - binade x)"
    using significand_bounds [OF assms] by simp
  then have "2 ^ 52 \<le> round_even (x * 2 powi (52 - binade x))"
    by (rule round_even_ge)
  then have "0 < real_of_int (round_even (x * 2 powi (52 - binade x)))" by simp
  then show ?thesis using assms by (simp add: double_def)
qed

text \<open>Rounding never carries a number over a whole number below \<open>2\<^sup>5\<^sup>3\<close>.\<close>

lemma double_le_nat:
  assumes "0 < x" and "x \<le> real n" and "n < 2 ^ 53"
  shows "double x \<le> real n"
proof -
  have b: "2 powi binade x \<le> x" using binade_bounds [of x] assms(1) by simp
  have le: "binade x \<le> 52"
  proof (rule ccontr)
    assume "\<not> binade x \<le> 52"
    then have "(2::real) powi 53 \<le> 2 powi binade x"
      by (intro power_int_increasing) simp_all
    then have "2 ^ 53 \<le> real n" using b assms(2) by simp
    then have "(2::nat) ^ 53 \<le> n" by (metis of_nat_le_iff of_nat_numeral of_nat_power)
    then show False using assms(3) by simp
  qed
  define k where "k = nat (52 - binade x)"
  have k: "(2::real) powi (52 - binade x) = 2 ^ k" and k': "(2::real) powi (binade x - 52) = 1 / 2 ^ k"
    using le by (simp_all add: power_int_def k_def power_one_over)
  have "x * 2 ^ k \<le> real n * 2 ^ k" using assms(2) by simp
  also have "\<dots> = real_of_int (int n * 2 ^ k)" by simp
  finally have "round_even (x * 2 ^ k) \<le> int n * 2 ^ k" by (rule round_even_le)
  then have "real_of_int (round_even (x * 2 ^ k)) \<le> real_of_int (int n * 2 ^ k)" by linarith
  then have "real_of_int (round_even (x * 2 ^ k)) / 2 ^ k \<le> real n"
    by (simp add: divide_le_eq)
  then show ?thesis using assms(1) by (simp add: double_def k k')
qed

text \<open>The relative error of rounding is at most \<open>2\<^sup>-\<^sup>5\<^sup>3\<close>.\<close>

lemma double_error: "\<bar>double x - x\<bar> \<le> \<bar>x\<bar> / 2 ^ 53"
proof (cases "x = 0")
  case True
  then show ?thesis by (simp add: double_def)
next
  case False
  define m where "m = x * 2 powi (52 - binade x)"
  have p: "0 < (2::real) powi (binade x - 52)" by simp
  have x: "x = m * 2 powi (binade x - 52)"
    by (simp add: m_def mult.assoc power_int_add [symmetric])
  have "double x - x = (real_of_int (round_even m) - m) * 2 powi (binade x - 52)"
    using False x by (simp add: double_def m_def [symmetric] algebra_simps)
  then have "\<bar>double x - x\<bar> = \<bar>real_of_int (round_even m) - m\<bar> * 2 powi (binade x - 52)"
    using p by (simp add: abs_mult)
  also have "\<dots> \<le> 1 / 2 * 2 powi (binade x - 52)"
    using round_even_near [of m] p by (simp add: mult_right_mono)
  also have "\<dots> = 2 powi binade x / 2 ^ 53"
    by (simp add: power_int_diff)
  also have "\<dots> \<le> \<bar>x\<bar> / 2 ^ 53"
    using binade_bounds [OF False] by (simp add: divide_right_mono)
  finally show ?thesis .
qed

text \<open>
  The double of a number below \<open>2\<^sup>5\<^sup>3\<close>, once the \<open>k\<close> is known that scales it to a
  significand of 53 bits.
\<close>

lemma double_eval:
  fixes k :: nat
  assumes "2 ^ 52 \<le> \<bar>x\<bar> * 2 ^ k" and "\<bar>x\<bar> * 2 ^ k < 2 ^ 53"
  shows "double x = real_of_int (round_even (x * 2 ^ k)) / 2 ^ k"
proof -
  have "2 powi (52 - int k) \<le> \<bar>x\<bar>"
    using assms(1) by (simp add: power_int_diff divide_le_eq)
  moreover have "\<bar>x\<bar> < 2 powi (52 - int k + 1)"
  proof -
    have "\<bar>x\<bar> < 2 ^ 53 / 2 ^ k" using assms(2) by (simp add: less_divide_eq)
    also have "\<dots> = 2 powi (53 - int k)" by (simp add: power_int_diff)
    finally show ?thesis by (simp add: algebra_simps)
  qed
  ultimately have b: "binade x = 52 - int k" by (rule binade_unique)
  have nz: "x \<noteq> 0" using assms(1) by auto
  show ?thesis using nz by (simp add: double_def b power_int_minus field_simps)
qed

lemma double_045: "double 0.45 = 8106479329266893 / 2 ^ 54"
  by (subst double_eval [where k = 54]) (simp_all add: round_even_def)

lemma double_07: "double 0.7 = 6305039478318694 / 2 ^ 53"
  by (subst double_eval [where k = 53]) (simp_all add: round_even_def)

lemma double_518_4: "double 518.4 = 4559894622712627 / 2 ^ 43"
  by (subst double_eval [where k = 43]) (simp_all add: round_even_def)

lemma double_526_4: "double 526.4 = 4630263366890291 / 2 ^ 43"
  by (subst double_eval [where k = 43]) (simp_all add: round_even_def)

lemma double_0_5184: "double 0.5184 = 4669332093657730 / 2 ^ 53"
  by (subst double_eval [where k = 53]) (simp_all add: round_even_def)

subsection \<open>The fit\<close>

lemma inset_pos: "0 < inset v"
  by (simp add: inset_def)

lemma inset_1200: "inset 1200 = 1152"
  by (simp add: inset_def margin_def)

lemma inset_800: "inset 800 = 752"
  by (simp add: inset_def margin_def)

lemma maxW_pos: "0 < vw \<Longrightarrow> 0 < maxW vw"
  by (simp add: maxW_def double_pos)

lemma maxH_pos: "0 < vh \<Longrightarrow> 0 < maxH vh"
  by (simp add: maxH_def double_pos)

lemma maxW_1152: "maxW 1152 = 4559894622712627 / 2 ^ 43"
  unfolding maxW_def double_045
  by (subst double_eval [where k = 43]) (simp_all add: round_even_def)

lemma maxH_752: "maxH 752 = 4630263366890291 / 2 ^ 43"
  unfolding maxH_def double_07
  by (subst double_eval [where k = 43]) (simp_all add: round_even_def)

lemma Math_round_of_nat: "Math_round (real n) = real n"
proof -
  have "\<lfloor>real n + 1 / 2\<rfloor> = int n" by linarith
  then show ?thesis by (simp add: Math_round_def)
qed

lemma Math_round_mono: "a \<le> b \<Longrightarrow> Math_round a \<le> Math_round b"
  by (simp add: Math_round_def floor_mono)

lemma Math_round_near: "\<bar>Math_round v - v\<bar> \<le> 1 / 2"
  unfolding Math_round_def by linarith

lemma fit_scale_eq:
  "fit_scale (fit vw vh sz) =
     min (double (maxW vw / size_w sz)) (min (double (maxH vh / size_h sz)) 1)"
  by (simp add: fit_def Let_def)

lemma fit_size_eq:
  "fit_size (fit vw vh sz) =
     \<lparr>size_w = Math_round (double (size_w sz * fit_scale (fit vw vh sz))),
      size_h = Math_round (double (size_h sz * fit_scale (fit vw vh sz)))\<rparr>"
  by (simp add: fit_def Let_def)

lemma fit_scale_range:
  assumes "0 < vw" "0 < vh" "0 < size_w sz" "0 < size_h sz"
  shows "0 < fit_scale (fit vw vh sz) \<and> fit_scale (fit vw vh sz) \<le> 1"
  using assms maxW_pos [of vw] maxH_pos [of vh] by (simp add: fit_scale_eq double_pos)

lemma round_scaled_le:
  assumes "0 < s" and "s \<le> 1" and "0 < n" and "n < 2 ^ 53"
  shows "Math_round (double (real n * s)) \<le> real n"
proof -
  have "0 < real n * s" and "real n * s \<le> real n"
    using assms by (simp_all add: mult_left_le)
  then have "double (real n * s) \<le> real n"
    using assms(4) by (rule double_le_nat)
  then have "Math_round (double (real n * s)) \<le> Math_round (real n)" by (rule Math_round_mono)
  then show ?thesis by (simp add: Math_round_of_nat)
qed

lemma loadMeta_positive:
  assumes "loadMeta p = Fulfilled sz"
  shows "0 < size_w sz \<and> 0 < size_h sz"
  using assms by (cases p) (auto simp add: loadMeta_def or_default_def)

text \<open>The scale factor in a viewport of 1200 by 800 for an image 1000 wide.\<close>

lemma quotient_w_1000: "double (maxW 1152 / 1000) = 4669332093657730 / 2 ^ 53"
  unfolding maxW_1152
  by (subst double_eval [where k = 53]) (simp_all add: round_even_def)

lemma quotient_h_500: "double (maxH 752 / 500) = 4741389687695658 / 2 ^ 52"
  unfolding maxH_752
  by (subst double_eval [where k = 52]) (simp_all add: round_even_def)

lemma quotient_h_501: "double (maxH 752 / 501) = 4731925836023611 / 2 ^ 52"
  unfolding maxH_752
  by (subst double_eval [where k = 52]) (simp_all add: round_even_def)

lemma product_1000: "double (1000 * (4669332093657730 / 2 ^ 53)) = 4559894622712627 / 2 ^ 43"
  by (subst double_eval [where k = 43]) (simp_all add: round_even_def)

lemma product_500: "double (500 * (4669332093657730 / 2 ^ 53)) = 4559894622712627 / 2 ^ 44"
  by (subst double_eval [where k = 44]) (simp_all add: round_even_def)

lemma product_501: "double (501 * (4669332093657730 / 2 ^ 53)) = 4569014411958052 / 2 ^ 44"
  by (subst double_eval [where k = 44]) (simp_all add: round_even_def)

lemma fit_1000x500:
  "fit 1152 752 \<lparr>size_w = 1000, size_h = 500\<rparr> =
     \<lparr>fit_size = \<lparr>size_w = 518, size_h = 259\<rparr>, fit_scale = 4669332093657730 / 2 ^ 53\<rparr>"
proof -
  have s: "min (double (maxW 1152 / 1000)) (min (double (maxH 752 / 500)) 1) =
             4669332093657730 / 2 ^ 53"
    unfolding quotient_w_1000 quotient_h_500 by simp
  have w: "Math_round (double (1000 * (4669332093657730 / 2 ^ 53))) = 518"
    unfolding product_1000 by (simp add: Math_round_def)
  have h: "Math_round (double (500 * (4669332093657730 / 2 ^ 53))) = 259"
    unfolding product_500 by (simp add: Math_round_def)
  have "fit 1152 752 \<lparr>size_w = 1000, size_h = 500\<rparr> =
     \<lparr>fit_size = \<lparr>size_w = Math_round (double (1000 * (4669332093657730 / 2 ^ 53))),
                  size_h = Math_round (double (500 * (4669332093657730 / 2 ^ 53)))\<rparr>,
      fit_scale = 4669332093657730 / 2 ^ 53\<rparr>"
    by (simp only: fit_def Let_def Size.simps s)
  then show ?thesis by (simp only: w h)
qed

lemma fit_1000x501:
  "fit (inset 1200) (inset 800) \<lparr>size_w = 1000, size_h = 501\<rparr> =
     \<lparr>fit_size = \<lparr>size_w = 518, size_h = 260\<rparr>, fit_scale = 4669332093657730 / 2 ^ 53\<rparr>"
proof -
  have s: "min (double (maxW 1152 / 1000)) (min (double (maxH 752 / 501)) 1) =
             4669332093657730 / 2 ^ 53"
    unfolding quotient_w_1000 quotient_h_501 by simp
  have w: "Math_round (double (1000 * (4669332093657730 / 2 ^ 53))) = 518"
    unfolding product_1000 by (simp add: Math_round_def)
  have h: "Math_round (double (501 * (4669332093657730 / 2 ^ 53))) = 260"
    unfolding product_501 by (simp add: Math_round_def)
  have "fit 1152 752 \<lparr>size_w = 1000, size_h = 501\<rparr> =
     \<lparr>fit_size = \<lparr>size_w = Math_round (double (1000 * (4669332093657730 / 2 ^ 53))),
                  size_h = Math_round (double (501 * (4669332093657730 / 2 ^ 53)))\<rparr>,
      fit_scale = 4669332093657730 / 2 ^ 53\<rparr>"
    by (simp only: fit_def Let_def Size.simps s)
  then show ?thesis by (simp only: w h inset_1200 inset_800)
qed

text \<open>
  C2, as the code has it. For every intrinsic size of positive whole pixels (what
  \<open>naturalWidth\<close> and \<open>naturalHeight\<close> are; below \<open>2\<^sup>5\<^sup>3\<close>) and every viewport, the scale
  factor is \<open>s = min(maxW/w, maxH/h, 1)\<close>, the quotients being the doubles the code
  computes, and lies in \<open>(0, 1]\<close>; the fitted sides are \<open>Math.round(w*s)\<close> and
  \<open>Math.round(h*s)\<close>, the products being doubles again; neither is above its intrinsic
  side, each is within half a pixel of its product, and each product is the exact one up
  to the relative error \<open>2\<^sup>-\<^sup>5\<^sup>3\<close> of a double. The two ratios \<open>fittedW/w\<close> and
  \<open>fittedH/h\<close> agree up to that rounding only.
\<close>

theorem fit_never_upscales:
  assumes "0 < nw" and "nw < 2 ^ 53" and "0 < nh" and "nh < 2 ^ 53"
  shows "let sz = \<lparr>size_w = real nw, size_h = real nh\<rparr>;
             f = fit (inset innerWidth) (inset innerHeight) sz;
             s = fit_scale f
         in s = min (double (maxW (inset innerWidth) / real nw))
                    (min (double (maxH (inset innerHeight) / real nh)) 1)
          \<and> 0 < s \<and> s \<le> 1
          \<and> size_w (fit_size f) = Math_round (double (real nw * s))
          \<and> size_h (fit_size f) = Math_round (double (real nh * s))
          \<and> size_w (fit_size f) \<le> real nw
          \<and> size_h (fit_size f) \<le> real nh
          \<and> \<bar>size_w (fit_size f) - double (real nw * s)\<bar> \<le> 1 / 2
          \<and> \<bar>size_h (fit_size f) - double (real nh * s)\<bar> \<le> 1 / 2
          \<and> \<bar>double (real nw * s) - real nw * s\<bar> \<le> real nw * s / 2 ^ 53
          \<and> \<bar>double (real nh * s) - real nh * s\<bar> \<le> real nh * s / 2 ^ 53"
proof -
  define sz where "sz = \<lparr>size_w = real nw, size_h = real nh\<rparr>"
  define f where "f = fit (inset innerWidth) (inset innerHeight) sz"
  define s where "s = fit_scale f"
  have rng: "0 < s \<and> s \<le> 1"
    unfolding s_def f_def using assms
    by (intro fit_scale_range) (simp_all add: inset_pos sz_def)
  have seq: "s = min (double (maxW (inset innerWidth) / real nw))
                     (min (double (maxH (inset innerHeight) / real nh)) 1)"
    by (simp add: s_def f_def fit_scale_eq sz_def)
  have w: "size_w (fit_size f) = Math_round (double (real nw * s))"
    and h: "size_h (fit_size f) = Math_round (double (real nh * s))"
    unfolding s_def f_def by (subst fit_size_eq, simp add: sz_def)+
  have wle: "size_w (fit_size f) \<le> real nw" and hle: "size_h (fit_size f) \<le> real nh"
    using rng assms by (simp_all add: w h round_scaled_le)
  have wn: "\<bar>size_w (fit_size f) - double (real nw * s)\<bar> \<le> 1 / 2"
    and hn: "\<bar>size_h (fit_size f) - double (real nh * s)\<bar> \<le> 1 / 2"
    by (simp_all only: w h Math_round_near)
  have we: "\<bar>double (real nw * s) - real nw * s\<bar> \<le> real nw * s / 2 ^ 53"
    and he: "\<bar>double (real nh * s) - real nh * s\<bar> \<le> real nh * s / 2 ^ 53"
    using double_error [of "real nw * s"] double_error [of "real nh * s"] rng
    by (simp_all add: abs_mult)
  show ?thesis
    using rng seq w h wle hle wn hn we he
    unfolding Let_def sz_def [symmetric] f_def [symmetric] s_def [symmetric]
    by blast
qed

text \<open>
  The theorem at the intrinsic size 1000 by 501 in a viewport of 1200 by 800: the factor
  is the double 0.5184 and the fitted size 518 by 260.
\<close>

theorem fit_never_upscales_witness:
  "0 < (1000::nat) \<and> (1000::nat) < 2 ^ 53 \<and> 0 < (501::nat) \<and> (501::nat) < 2 ^ 53
   \<and> fit (inset 1200) (inset 800) \<lparr>size_w = real 1000, size_h = real 501\<rparr> =
       \<lparr>fit_size = \<lparr>size_w = 518, size_h = 260\<rparr>, fit_scale = double 0.5184\<rparr>
   \<and> (let sz = \<lparr>size_w = real 1000, size_h = real 501\<rparr>;
           f = fit (inset 1200) (inset 800) sz;
           s = fit_scale f
       in s = min (double (maxW (inset 1200) / real 1000))
                  (min (double (maxH (inset 800) / real 501)) 1)
        \<and> 0 < s \<and> s \<le> 1
        \<and> size_w (fit_size f) = Math_round (double (real 1000 * s))
        \<and> size_h (fit_size f) = Math_round (double (real 501 * s))
        \<and> size_w (fit_size f) \<le> real 1000
        \<and> size_h (fit_size f) \<le> real 501
        \<and> \<bar>size_w (fit_size f) - double (real 1000 * s)\<bar> \<le> 1 / 2
        \<and> \<bar>size_h (fit_size f) - double (real 501 * s)\<bar> \<le> 1 / 2
        \<and> \<bar>double (real 1000 * s) - real 1000 * s\<bar> \<le> real 1000 * s / 2 ^ 53
        \<and> \<bar>double (real 501 * s) - real 501 * s\<bar> \<le> real 501 * s / 2 ^ 53)"
proof -
  have a: "0 < (1000::nat)" and a': "(1000::nat) < 2 ^ 53"
    and b: "0 < (501::nat)" and b': "(501::nat) < 2 ^ 53" by simp_all
  have v: "fit (inset 1200) (inset 800) \<lparr>size_w = real 1000, size_h = real 501\<rparr> =
       \<lparr>fit_size = \<lparr>size_w = 518, size_h = 260\<rparr>, fit_scale = double 0.5184\<rparr>"
    by (simp only: of_nat_numeral fit_1000x501 double_0_5184)
  show ?thesis
    using a a' b b' v fit_never_upscales [OF a a' b b', of 1200 800] by blast
qed

text \<open>
  C2 as it is stated fails: at the intrinsic size 1000 by 501 in a viewport of 1200 by
  800 the fitted size is 518 by 260, and \<open>518/1000\<close> is not \<open>260/501\<close>.
\<close>

theorem fit_ratios_differ:
  "size_w (fit_size (fit (inset 1200) (inset 800) \<lparr>size_w = 1000, size_h = 501\<rparr>)) / 1000
   \<noteq> size_h (fit_size (fit (inset 1200) (inset 800) \<lparr>size_w = 1000, size_h = 501\<rparr>)) / 501"
  by (simp add: fit_1000x501)

text \<open>
  C3. The intrinsic size 1000 by 500 in a viewport of 1200 by 800 with the margin 24:
  \<open>vw = 1152\<close>, \<open>vh = 752\<close>, \<open>maxW = 518.4\<close>, \<open>maxH = 526.4\<close>, the factor is 0.5184
  and the fitted size 518 by 259, which is also the size the layout gives the card. The
  three fractions are the doubles these decimals denote, each within the relative error
  \<open>2\<^sup>-\<^sup>5\<^sup>3\<close> of its decimal.
\<close>

theorem fit_scenario_1000x500:
  "margin = 24
   \<and> inset 1200 = 1152 \<and> inset 800 = 752
   \<and> maxW (inset 1200) = double 518.4 \<and> maxH (inset 800) = double 526.4
   \<and> \<bar>maxW (inset 1200) - 518.4\<bar> \<le> 518.4 / 2 ^ 53
   \<and> \<bar>maxH (inset 800) - 526.4\<bar> \<le> 526.4 / 2 ^ 53
   \<and> loadMeta (Loaded 1000 500) = Fulfilled \<lparr>size_w = 1000, size_h = 500\<rparr>
   \<and> fit (inset 1200) (inset 800) \<lparr>size_w = 1000, size_h = 500\<rparr> =
       \<lparr>fit_size = \<lparr>size_w = 518, size_h = 259\<rparr>, fit_scale = double 0.5184\<rparr>
   \<and> \<bar>fit_scale (fit (inset 1200) (inset 800) \<lparr>size_w = 1000, size_h = 500\<rparr>) - 0.5184\<bar>
       \<le> 0.5184 / 2 ^ 53
   \<and> map_option fst (sizes (layout_body 1200 800 \<lparr>size_w = 1000, size_h = 500\<rparr> metaRight pg)) =
       Some \<lparr>size_w = 518, size_h = 259\<rparr>"
proof -
  have f: "fit (inset 1200) (inset 800) \<lparr>size_w = 1000, size_h = 500\<rparr> =
       \<lparr>fit_size = \<lparr>size_w = 518, size_h = 259\<rparr>, fit_scale = double 0.5184\<rparr>"
    by (simp only: inset_1200 inset_800 fit_1000x500 double_0_5184)
  have m: "maxW (inset 1200) = double 518.4" "maxH (inset 800) = double 526.4"
    by (simp_all only: inset_1200 inset_800 maxW_1152 maxH_752 double_518_4 double_526_4)
  have e: "\<bar>maxW (inset 1200) - 518.4\<bar> \<le> 518.4 / 2 ^ 53"
    "\<bar>maxH (inset 800) - 526.4\<bar> \<le> 526.4 / 2 ^ 53"
    using double_error [of "518.4"] double_error [of "526.4"] by (simp_all only: m)
  have es: "\<bar>fit_scale (fit (inset 1200) (inset 800) \<lparr>size_w = 1000, size_h = 500\<rparr>) - 0.5184\<bar>
       \<le> 0.5184 / 2 ^ 53"
    using double_error [of "0.5184"] by (simp only: f Fit.simps) simp
  have l: "loadMeta (Loaded 1000 500) = Fulfilled \<lparr>size_w = 1000, size_h = 500\<rparr>"
    by (simp add: loadMeta_def or_default_def)
  have s: "map_option fst (sizes (layout_body 1200 800 \<lparr>size_w = 1000, size_h = 500\<rparr> metaRight pg)) =
       Some \<lparr>size_w = 518, size_h = 259\<rparr>"
    by (simp add: layout_body_def Let_def f)
  have i: "margin = 24" "inset 1200 = 1152" "inset 800 = 752"
    by (simp_all add: margin_def inset_1200 inset_800)
  show ?thesis
    using i m e l f es s by blast
qed


section \<open>Properties of the drag controller\<close>





lemma raf_callback_fields:
  "pos (raf_callback st) = pos st"
  "dragging (raf_callback st) = dragging st"
  "dragOffset (raf_callback st) = dragOffset st"
  "move_listener (raf_callback st) = move_listener st"
  "up_listener (raf_callback st) = up_listener st"
  "anchor (raf_callback st) = anchor st"
  by (simp_all add: raf_callback_def Let_def split: option.splits)

lemma fold_raf_callback_fields:
  "pos (fold (\<lambda>_. raf_callback) hs st) = pos st"
  "dragging (fold (\<lambda>_. raf_callback) hs st) = dragging st"
  "dragOffset (fold (\<lambda>_. raf_callback) hs st) = dragOffset st"
  "move_listener (fold (\<lambda>_. raf_callback) hs st) = move_listener st"
  "up_listener (fold (\<lambda>_. raf_callback) hs st) = up_listener st"
  "anchor (fold (\<lambda>_. raf_callback) hs st) = anchor st"
  by (induction hs arbitrary: st; simp add: raf_callback_fields)+

lemma tick_fields:
  "pos (tick st) = pos st"
  "dragging (tick st) = dragging st"
  "dragOffset (tick st) = dragOffset st"
  "move_listener (tick st) = move_listener st"
  "up_listener (tick st) = up_listener st"
  "anchor (tick st) = anchor st"
  "frames (tick st) = []"
  by (simp_all add: tick_def fold_raf_callback_fields)

lemma run_snoc: "run (evs @ [ev]) st = step ev (run evs st)"
  by (simp add: run_def)

lemma run_Cons: "run (ev # evs) st = run evs (step ev st)"
  by (simp add: run_def)

lemma run_Nil: "run [] st = st"
  by (simp add: run_def)

lemma run_append: "run (xs @ ys) st = run ys (run xs st)"
  by (simp add: run_def)

lemma onPointerDown_fields:
  "pos (onPointerDown p st) = pos st"
  "dragging (onPointerDown p st)"
  "move_listener (onPointerDown p st)"
  "up_listener (onPointerDown p st)"
  "el (onPointerDown p st) = el st"
  "rafId (onPointerDown p st) = rafId st"
  "frames (onPointerDown p st) = frames st"
  "anchor (onPointerDown p st) = anchor st"
  by (simp_all add: onPointerDown_def Let_def)


lemma stopDragging_fields:
  "pos (stopDragging st) = pos st"
  "\<not> dragging (stopDragging st)"
  "\<not> move_listener (stopDragging st)"
  "\<not> up_listener (stopDragging st)"
  "anchor (stopDragging st) = anchor st"
  by (simp_all add: stopDragging_def)

lemma coalesced_mount: "coalesced (mount p)"
  by (simp add: coalesced_def mount_def)

lemma coalesced_scheduleRender:
  "el st \<noteq> None \<Longrightarrow> (rafId st = None \<longrightarrow> frames st = []) \<Longrightarrow> (\<forall>h. rafId st = Some h \<longrightarrow> frames st = [h]) \<Longrightarrow> coalesced (scheduleRender st)"
  by (auto simp add: coalesced_def scheduleRender_def split: option.splits)

lemma coalesced_tick: "coalesced st \<Longrightarrow> coalesced (tick st) \<and> rafId (tick st) = None \<and> map_option el_transform (el (tick st)) = Some (pos st)"
  by (auto simp add: coalesced_def tick_def raf_callback_def split: option.splits)

lemma coalesced_step: "coalesced st \<Longrightarrow> coalesced (step ev st)"
proof (cases ev)
  case (PointerDown tg e)
  assume "coalesced st"
  then show ?thesis using PointerDown
    by (auto simp add: coalesced_def onPointerDown_def Let_def split: option.splits)
next
  case (PointerMove e)
  assume c: "coalesced st"
  then have "coalesced (scheduleRender (st\<lparr>pos := q\<rparr>))" for q
    by (intro coalesced_scheduleRender) (auto simp add: coalesced_def split: option.splits)
  then show ?thesis using PointerMove c by (simp add: onPointerMove_def)
next
  case PointerUp
  assume "coalesced st"
  then show ?thesis using PointerUp
    by (auto simp add: coalesced_def stopDragging_def split: option.splits)
next
  case Frame
  assume "coalesced st"
  then show ?thesis using Frame by (simp add: coalesced_tick)
qed

lemma coalesced_run: "coalesced st \<Longrightarrow> coalesced (run evs st)"
  by (induction evs rule: rev_induct) (simp_all add: run_Nil run_snoc coalesced_step)

lemma coalesced_frames: "coalesced st \<Longrightarrow> length (frames st) \<le> 1 \<and> (frames st \<noteq> []) = (rafId st \<noteq> None)"
  by (auto simp add: coalesced_def split: option.splits)




lemma card_at_100_60_val:
  "card_at_100_60 =
     \<lparr>el = Some \<lparr>el_width = 360, el_height = 240, el_transform = pt 100 60\<rparr>,
      pos = pt 100 60, dragging = False, dragOffset = pt 0 0, rafId = None, frames = [],
      next_handle = 1, move_listener = False, up_listener = False, anchor = True\<rparr>"
  by (simp add: card_at_100_60_def props_at_100_60_def mount_def shows_anchor_def)

lemma down_120_80:
  "step (PointerDown OnCard (pointer_at 120 80)) card_at_100_60 =
     \<lparr>el = Some \<lparr>el_width = 360, el_height = 240, el_transform = pt 100 60\<rparr>,
      pos = pt 100 60, dragging = True, dragOffset = pt 20 20, rafId = None, frames = [],
      next_handle = 1, move_listener = True, up_listener = True, anchor = True\<rparr>"
  by (simp add: card_at_100_60_val onPointerDown_def getBoundingClientRect_def)

lemma move_200_150:
  "step (PointerMove (pointer_at 200 150)) (step (PointerDown OnCard (pointer_at 120 80)) card_at_100_60) =
     \<lparr>el = Some \<lparr>el_width = 360, el_height = 240, el_transform = pt 100 60\<rparr>,
      pos = pt 180 130, dragging = True, dragOffset = pt 20 20, rafId = Some 1, frames = [1],
      next_handle = 2, move_listener = True, up_listener = True, anchor = True\<rparr>"
  by (simp only: down_120_80) (simp add: onPointerMove_def scheduleRender_def)

lemma move_210_160:
  "step (PointerMove (pointer_at 210 160))
     (step (PointerMove (pointer_at 200 150)) (step (PointerDown OnCard (pointer_at 120 80)) card_at_100_60)) =
     \<lparr>el = Some \<lparr>el_width = 360, el_height = 240, el_transform = pt 100 60\<rparr>,
      pos = pt 190 140, dragging = True, dragOffset = pt 20 20, rafId = Some 1, frames = [1],
      next_handle = 2, move_listener = True, up_listener = True, anchor = True\<rparr>"
  by (simp only: move_200_150) (simp add: onPointerMove_def scheduleRender_def)





text \<open>
  C5. In every state a mounted card reaches, at most one animation-frame callback waits,
  and one waits exactly when \<open>rafId\<close> holds a handle; \<open>scheduleRender\<close> with a handle
  in \<open>rafId\<close> changes nothing; the frame tick clears \<open>rafId\<close>, leaves no callback
  waiting, does not change the stored position, and leaves the \<open>div\<close> showing the
  position stored when the tick runs.
\<close>

theorem repaint_coalesced:
  "let st = run evs (mount p)
   in length (frames st) \<le> 1
    \<and> (frames st \<noteq> []) = (rafId st \<noteq> None)
    \<and> (rafId st \<noteq> None \<longrightarrow> scheduleRender st = st)
    \<and> rafId (tick st) = None
    \<and> frames (tick st) = []
    \<and> pos (tick st) = pos st
    \<and> map_option el_transform (el (tick st)) = Some (pos st)"
proof -
  have c: "coalesced (run evs (mount p))"
    by (simp add: coalesced_run coalesced_mount)
  show ?thesis
    unfolding Let_def
    using coalesced_frames [OF c] coalesced_tick [OF c]
    by (simp add: tick_fields scheduleRender_def)
qed

text \<open>
  The theorem after a pointer-down and two moves with no frame in between: one callback
  waits (handle 1), the \<open>div\<close> is painted at the last position \<open>(190, 140)\<close>.
\<close>

theorem repaint_coalesced_witness:
  "rafId (run [PointerDown OnCard (pointer_at 120 80), PointerMove (pointer_at 200 150),
               PointerMove (pointer_at 210 160)] (mount props_at_100_60)) = Some 1
   \<and> frames (run [PointerDown OnCard (pointer_at 120 80), PointerMove (pointer_at 200 150),
               PointerMove (pointer_at 210 160)] (mount props_at_100_60)) = [1]
   \<and> (let st = run [PointerDown OnCard (pointer_at 120 80), PointerMove (pointer_at 200 150),
               PointerMove (pointer_at 210 160)] (mount props_at_100_60)
      in length (frames st) \<le> 1
       \<and> (frames st \<noteq> []) = (rafId st \<noteq> None)
       \<and> (rafId st \<noteq> None \<longrightarrow> scheduleRender st = st)
       \<and> rafId (tick st) = None
       \<and> frames (tick st) = []
       \<and> pos (tick st) = pos st
       \<and> map_option el_transform (el (tick st)) = Some (pos st))"
proof -
  have v: "run [PointerDown OnCard (pointer_at 120 80), PointerMove (pointer_at 200 150),
               PointerMove (pointer_at 210 160)] (mount props_at_100_60) =
     \<lparr>el = Some \<lparr>el_width = 360, el_height = 240, el_transform = pt 100 60\<rparr>,
      pos = pt 190 140, dragging = True, dragOffset = pt 20 20, rafId = Some 1, frames = [1],
      next_handle = 2, move_listener = True, up_listener = True, anchor = True\<rparr>"
    by (simp only: run_def fold_simps id_apply comp_apply card_at_100_60_def [symmetric] move_210_160)
  have a: "rafId (run [PointerDown OnCard (pointer_at 120 80), PointerMove (pointer_at 200 150),
               PointerMove (pointer_at 210 160)] (mount props_at_100_60)) = Some 1"
    and b: "frames (run [PointerDown OnCard (pointer_at 120 80), PointerMove (pointer_at 200 150),
               PointerMove (pointer_at 210 160)] (mount props_at_100_60)) = [1]"
    by (simp_all only: v card.simps)
  show ?thesis
    using a b repaint_coalesced [of "[PointerDown OnCard (pointer_at 120 80),
      PointerMove (pointer_at 200 150), PointerMove (pointer_at 210 160)]" props_at_100_60]
    by blast
qed



text \<open>
  C7, as the code has it. A second pointer-down on the surface of a card that is already
  dragging starts no nested session, but it is not ignored: the dragging flag, the
  listeners, the position and the pending repaint stay as they are, and the recorded
  offset is overwritten with the pointer position minus the card's current top-left.
\<close>

theorem second_pointerdown_rewrites_offset:
  assumes "dragging st" and "move_listener st" and "up_listener st" and "el st = Some d"
  shows "step (PointerDown OnCard e) st =
           st\<lparr>dragOffset := \<lparr>pt_x = clientX e - pt_x (el_transform d),
                              pt_y = clientY e - pt_y (el_transform d)\<rparr>\<rparr>"
  using assms by (simp add: onPointerDown_def getBoundingClientRect_def)

text \<open>
  The theorem on the card at \<open>(100, 60)\<close>, dragged from \<open>(120, 80)\<close>: a second
  pointer-down at \<open>(150, 100)\<close> changes the offset to \<open>(50, 40)\<close> and nothing else.
\<close>

theorem second_pointerdown_rewrites_offset_witness:
  "dragging (step (PointerDown OnCard (pointer_at 120 80)) card_at_100_60)
   \<and> move_listener (step (PointerDown OnCard (pointer_at 120 80)) card_at_100_60)
   \<and> up_listener (step (PointerDown OnCard (pointer_at 120 80)) card_at_100_60)
   \<and> el (step (PointerDown OnCard (pointer_at 120 80)) card_at_100_60) =
       Some \<lparr>el_width = 360, el_height = 240, el_transform = pt 100 60\<rparr>
   \<and> step (PointerDown OnCard (pointer_at 150 100))
        (step (PointerDown OnCard (pointer_at 120 80)) card_at_100_60) =
       (step (PointerDown OnCard (pointer_at 120 80)) card_at_100_60)\<lparr>dragOffset := pt 50 40\<rparr>"
proof -
  have a: "dragging (step (PointerDown OnCard (pointer_at 120 80)) card_at_100_60)"
    and b: "move_listener (step (PointerDown OnCard (pointer_at 120 80)) card_at_100_60)"
    and c: "up_listener (step (PointerDown OnCard (pointer_at 120 80)) card_at_100_60)"
    and d: "el (step (PointerDown OnCard (pointer_at 120 80)) card_at_100_60) =
       Some \<lparr>el_width = 360, el_height = 240, el_transform = pt 100 60\<rparr>"
    by (simp_all only: down_120_80 card.simps)
  have "step (PointerDown OnCard (pointer_at 150 100))
        (step (PointerDown OnCard (pointer_at 120 80)) card_at_100_60) =
       (step (PointerDown OnCard (pointer_at 120 80)) card_at_100_60)\<lparr>dragOffset := pt 50 40\<rparr>"
    using second_pointerdown_rewrites_offset [OF a b c d, of "pointer_at 150 100"] by simp
  with a b c d show ?thesis by blast
qed

text \<open>
  C7 as it is stated fails: on the card at \<open>(100, 60)\<close>, dragged from \<open>(120, 80)\<close> with
  the offset \<open>(20, 20)\<close>, a second pointer-down at \<open>(150, 100)\<close> changes the offset.
\<close>

theorem second_pointerdown_not_ignored:
  "dragging (step (PointerDown OnCard (pointer_at 120 80)) card_at_100_60)
   \<and> dragOffset (step (PointerDown OnCard (pointer_at 120 80)) card_at_100_60) = pt 20 20
   \<and> dragOffset (step (PointerDown OnCard (pointer_at 150 100))
                   (step (PointerDown OnCard (pointer_at 120 80)) card_at_100_60)) = pt 50 40
   \<and> step (PointerDown OnCard (pointer_at 150 100))
        (step (PointerDown OnCard (pointer_at 120 80)) card_at_100_60)
       \<noteq> step (PointerDown OnCard (pointer_at 120 80)) card_at_100_60"
  by (simp only: down_120_80) (simp add: onPointerDown_def getBoundingClientRect_def)

text \<open>
  C9. A drag session with no pointer-move between the pointer-down and the release
  leaves the stored position where it was, the card idle and both listeners removed,
  also when frames tick in between; the release itself never changes the position.
\<close>

theorem release_without_move:
  "pos (run (drag_session p []) st) = pos st
   \<and> \<not> dragging (run (drag_session p []) st)
   \<and> \<not> move_listener (run (drag_session p []) st)
   \<and> \<not> up_listener (run (drag_session p []) st)
   \<and> pos (run (PointerDown OnCard p # replicate n Frame @ [PointerUp]) st) = pos st
   \<and> \<not> dragging (run (PointerDown OnCard p # replicate n Frame @ [PointerUp]) st)
   \<and> pos (step PointerUp st) = pos st
   \<and> pos (stopDragging st) = pos st"
proof -
  have f: "pos (run (replicate n Frame) s) = pos s
         \<and> up_listener (run (replicate n Frame) s) = up_listener s" for s
    by (induction n arbitrary: s) (simp_all add: run_Nil run_Cons tick_fields)
  have a: "pos (run (PointerDown OnCard p # replicate n Frame @ [PointerUp]) st) = pos st
         \<and> \<not> dragging (run (PointerDown OnCard p # replicate n Frame @ [PointerUp]) st)"
    using f [of "onPointerDown p st"]
    by (simp add: run_Cons run_append run_Nil onPointerDown_fields stopDragging_fields)
  have b: "pos (run (drag_session p []) st) = pos st
         \<and> \<not> dragging (run (drag_session p []) st)
         \<and> \<not> move_listener (run (drag_session p []) st)
         \<and> \<not> up_listener (run (drag_session p []) st)"
    by (simp add: drag_session_def run_Cons run_Nil onPointerDown_fields stopDragging_fields)
  have c: "pos (step PointerUp st) = pos st \<and> pos (stopDragging st) = pos st"
    by (simp add: stopDragging_fields)
  show ?thesis using a b c by blast
qed

section \<open>Properties of the probe and the fallback\<close>

text \<open>
  C8. Whenever the probe of an image fails, the layout is the fallback one: both cards
  360 by 240, at \<open>(40, 80)\<close> and \<open>(424, 80)\<close>, each with the hotspot
  \<open>(10, 180, 340, 40)\<close>; the page is ready and renders the two cards, each with its
  hotspot anchor, and a pointer-down on either card's surface starts a drag.
\<close>

theorem probe_failure_fallback:
  assumes "image2 = Failed \<or> image1 = Failed"
  shows "layout_effect innerWidth innerHeight image2 image1 initial_page =
           \<lparr>ready = True,
            sizes = Some (\<lparr>size_w = 360, size_h = 240\<rparr>, \<lparr>size_w = 360, size_h = 240\<rparr>),
            centers = Some (pt 40 80, pt 424 80),
            hotspots = Some (\<lparr>rect_x = 10, rect_y = 180, rect_w = 340, rect_h = 40\<rparr>,
                             \<lparr>rect_x = 10, rect_y = 180, rect_w = 340, rect_h = 40\<rparr>)\<rparr>
       \<and> (case render (layout_effect innerWidth innerHeight image2 image1 initial_page) of
            Blank \<Rightarrow> False
          | Cards l r \<Rightarrow>
              cp_size l = \<lparr>size_w = 360, size_h = 240\<rparr> \<and> cp_size r = \<lparr>size_w = 360, size_h = 240\<rparr>
            \<and> cp_initial l = pt 40 80 \<and> cp_initial r = pt 424 80
            \<and> cp_hotspot l = Some \<lparr>rect_x = 10, rect_y = 180, rect_w = 340, rect_h = 40\<rparr>
            \<and> cp_hotspot r = Some \<lparr>rect_x = 10, rect_y = 180, rect_w = 340, rect_h = 40\<rparr>
            \<and> anchor (mount l) \<and> anchor (mount r)
            \<and> dragging (step (PointerDown OnCard e) (mount l))
            \<and> dragging (step (PointerDown OnCard e) (mount r)))"
proof -
  have rej: "layout_task innerWidth innerHeight image2 image1 initial_page = Rejected"
    using assms
    by (cases image2; cases image1) (auto simp add: layout_task_def Promise_all_def loadMeta_def)
  have pg: "layout_effect innerWidth innerHeight image2 image1 initial_page =
           \<lparr>ready = True,
            sizes = Some (\<lparr>size_w = 360, size_h = 240\<rparr>, \<lparr>size_w = 360, size_h = 240\<rparr>),
            centers = Some (pt 40 80, pt 424 80),
            hotspots = Some (\<lparr>rect_x = 10, rect_y = 180, rect_w = 340, rect_h = 40\<rparr>,
                             \<lparr>rect_x = 10, rect_y = 180, rect_w = 340, rect_h = 40\<rparr>)\<rparr>"
    by (simp only: layout_effect_def rej promise.case)
       (simp add: catch_fallback_def initial_page_def Let_def)
  show ?thesis
    by (simp add: pg render_def mount_def shows_anchor_def onPointerDown_fields)
qed

text \<open>
  The theorem in a viewport of 1200 by 800, the probe of \<open>/image2.png\<close> failing and the
  one of \<open>/image.png\<close> reporting 1000 by 500.
\<close>

theorem probe_failure_fallback_witness:
  "(Failed = Failed \<or> Loaded 1000 500 = Failed)
   \<and> ready (layout_effect 1200 800 Failed (Loaded 1000 500) initial_page)
   \<and> sizes (layout_effect 1200 800 Failed (Loaded 1000 500) initial_page) =
       Some (\<lparr>size_w = 360, size_h = 240\<rparr>, \<lparr>size_w = 360, size_h = 240\<rparr>)
   \<and> centers (layout_effect 1200 800 Failed (Loaded 1000 500) initial_page) =
       Some (pt 40 80, pt 424 80)
   \<and> render (layout_effect 1200 800 Failed (Loaded 1000 500) initial_page) \<noteq> Blank"
proof -
  have h: "Failed = Failed \<or> Loaded 1000 500 = Failed" by simp
  note t = probe_failure_fallback [OF h, of 1200 800]
  have a: "ready (layout_effect 1200 800 Failed (Loaded 1000 500) initial_page)"
    and b: "sizes (layout_effect 1200 800 Failed (Loaded 1000 500) initial_page) =
       Some (\<lparr>size_w = 360, size_h = 240\<rparr>, \<lparr>size_w = 360, size_h = 240\<rparr>)"
    and c: "centers (layout_effect 1200 800 Failed (Loaded 1000 500) initial_page) =
       Some (pt 40 80, pt 424 80)"
    by (simp_all only: t [THEN conjunct1] page.simps)
  have d: "render (layout_effect 1200 800 Failed (Loaded 1000 500) initial_page) \<noteq> Blank"
    using t [THEN conjunct2] by (auto split: view.splits)
  show ?thesis using h a b c d by blast
qed

text \<open>
  C10. When the \<open>load\<close> event of a probe fires with a zero \<open>naturalWidth\<close> or
  \<open>naturalHeight\<close>, the zero side is replaced, each axis on its own, by 360 (width) or
  240 (height); the layout of two loaded images is the normal one on those sizes; and
  the async function rejects, so that the fallback runs, exactly when the \<open>error\<close> event
  of one of the two images fires.
\<close>

theorem zero_natural_size_defaults:
  "loadMeta (Loaded nw nh) =
     Fulfilled \<lparr>size_w = (if nw = 0 then 360 else real nw), size_h = (if nh = 0 then 240 else real nh)\<rparr>
   \<and> loadMeta (Loaded 0 0) = Fulfilled \<lparr>size_w = 360, size_h = 240\<rparr>
   \<and> loadMeta (Loaded 0 500) = Fulfilled \<lparr>size_w = 360, size_h = 500\<rparr>
   \<and> loadMeta (Loaded 1000 0) = Fulfilled \<lparr>size_w = 1000, size_h = 240\<rparr>
   \<and> layout_effect iw ih (Loaded a b) (Loaded c d) pg =
       layout_body iw ih \<lparr>size_w = or_default a 360, size_h = or_default b 240\<rparr>
                         \<lparr>size_w = or_default c 360, size_h = or_default d 240\<rparr> pg
   \<and> (layout_task iw ih image2 image1 pg = Rejected) = (image2 = Failed \<or> image1 = Failed)"
  by (cases image2; cases image1)
     (simp_all add: loadMeta_def or_default_def layout_effect_def layout_task_def Promise_all_def)

end
